theory Spec2Isabelle
  imports Complex_Main "HOL-Library.Sublist"
begin

section \<open>Data model\<close>

text \<open>
  Samples, timestamps and frequencies are floating-point numbers in the source; they are
  modelled as reals. Where numpy would continue with a non-finite value (a division by
  zero), the real-valued model has nothing to return and the theorems exclude the case by
  an explicit hypothesis.

  Exceptions are values: every \<^verbatim>\<open>raise\<close> and every failing \<^verbatim>\<open>assert\<close> of the source is
  an \<open>Inl\<close> branch of the model.
\<close>

datatype error = ValueError | TypeError | AssertionError | IndexError

text \<open>
  \<^verbatim>\<open>FrequencySamples\<close> (frequencyseries.py): the frequency values \<^verbatim>\<open>_data\<close>, the raw bin
  spacing \<^verbatim>\<open>_df\<close> and the oversampling factor \<^verbatim>\<open>_n_per_peak\<close>.
\<close>

record FrequencySamples =
  fs_data :: "real list"
  fs_df :: real
  fs_n_per_peak :: real

text \<open>
  \<^verbatim>\<open>FrequencySeries\<close> (frequencyseries.py): the spectral values, the frequency grid
  \<^verbatim>\<open>_freqs\<close> and the epoch \<^verbatim>\<open>_epoch\<close>. The sample type is left open (real or complex).
\<close>

record 'a FrequencySeries =
  ser_data :: "'a list"
  ser_freqs :: FrequencySamples
  ser_epoch :: real

text \<open>\<^verbatim>\<open>basic_df\<close> property of \<^verbatim>\<open>FrequencySamples\<close>: \<^verbatim>\<open>self._df * self._n_per_peak\<close>.\<close>

definition basic_df :: "FrequencySamples \<Rightarrow> real" where
  "basic_df g = fs_df g * fs_n_per_peak g"

text \<open>\<^verbatim>\<open>basic_df\<close> property of \<^verbatim>\<open>FrequencySeries\<close>: \<^verbatim>\<open>self._freqs.basic_df\<close>.\<close>

definition ser_basic_df :: "'a FrequencySeries \<Rightarrow> real" where
  "ser_basic_df s = basic_df (ser_freqs s)"

section \<open>The numeric container\<close>

text \<open>
  Modelled from the spec: \<^verbatim>\<open>Array.max\<close> of mfilter/types/arrays.py, which is not among the
  sources. The spec has the container expose \<^verbatim>\<open>max\<close>; as numpy does, the maximum of an
  empty container raises.
\<close>

definition array_max :: "real list \<Rightarrow> error + real" where
  "array_max xs = (if xs = [] then Inl ValueError else Inr (Max (set xs)))"

text \<open>
  Modelled from the spec: \<^verbatim>\<open>Array.min\<close> of mfilter/types/arrays.py, the mirror image of
  \<^verbatim>\<open>Array.max\<close>.
\<close>

definition array_min :: "real list \<Rightarrow> error + real" where
  "array_min xs = (if xs = [] then Inl ValueError else Inr (Min (set xs)))"

text \<open>
  Modelled from the spec: \<^verbatim>\<open>Array.__eq__\<close> of mfilter/types/arrays.py, which is not among
  the sources. The spec's equality of series asks for equal samples; the container's own
  equality is that comparison of the two sample sequences.
\<close>

definition array_eq :: "'a list \<Rightarrow> 'a list \<Rightarrow> bool" where
  "array_eq xs ys = (xs = ys)"

section \<open>Frequency grid: the sampling-theorem check\<close>

text \<open>\<^verbatim>\<open>FrequencySamples.check_nsst\<close>: \<^verbatim>\<open>return 2 * B < self.max()\<close>.\<close>

definition check_nsst :: "FrequencySamples \<Rightarrow> real \<Rightarrow> error + bool" where
  "check_nsst g B =
     (case array_max (fs_data g) of
        Inl e \<Rightarrow> Inl e
      | Inr m \<Rightarrow> Inr (2 * B < m))"

section \<open>Frequency series: equality\<close>

text \<open>
  \<^verbatim>\<open>FrequencySeries.__eq__\<close>: when the containers compare equal, the result is
  \<^verbatim>\<open>self._epoch == other.epoch and self.basic_df == other.basic_df\<close>, otherwise False.
\<close>

definition FrequencySeries_eq :: "'a FrequencySeries \<Rightarrow> 'a FrequencySeries \<Rightarrow> bool" where
  "FrequencySeries_eq a b =
     (if array_eq (ser_data a) (ser_data b)
      then ser_epoch a = ser_epoch b \<and> ser_basic_df a = ser_basic_df b
      else False)"

section \<open>Time series\<close>

text \<open>
  \<^verbatim>\<open>Array.kind\<close>: the tag (\<^verbatim>\<open>'real'\<close> or \<^verbatim>\<open>'complex'\<close>) that the container class, which is
  not among the sources, derives from the element type of its data.
\<close>

datatype kind = real_kind | complex_kind

text \<open>
  \<^verbatim>\<open>TimeSeries\<close> (timeseries.py): the samples \<^verbatim>\<open>_data\<close>, the timestamps of its
  \<^verbatim>\<open>TimesSamples\<close> object \<^verbatim>\<open>_times\<close>, and the container's \<^verbatim>\<open>kind\<close>. The constructor does
  not compare the two lengths, so neither does the record.
\<close>

record 'a TimeSeries =
  ts_data :: "'a list"
  ts_times :: "real list"
  ts_kind :: kind

text \<open>
  \<^verbatim>\<open>TimeSeries.__init__\<close> with \<^verbatim>\<open>times\<close> given: fewer than one sample is a ValueError.
\<close>

definition TimeSeries_init :: "'a list \<Rightarrow> real list \<Rightarrow> kind \<Rightarrow> error + 'a TimeSeries" where
  "TimeSeries_init initial_array tms k =
     (if length initial_array < 1 then Inl ValueError
      else Inr \<lparr>ts_data = initial_array, ts_times = tms, ts_kind = k\<rparr>)"

text \<open>
  \<^verbatim>\<open>TimesSamples.duration\<close>: \<^verbatim>\<open>self._data.max() - self._data.min()\<close>; \<^verbatim>\<open>TimeSeries.duration\<close>
  forwards to it.
\<close>

definition duration :: "real list \<Rightarrow> error + real" where
  "duration tms =
     (case array_max tms of
        Inl e \<Rightarrow> Inl e
      | Inr hi \<Rightarrow> (case array_min tms of Inl e \<Rightarrow> Inl e | Inr lo \<Rightarrow> Inr (hi - lo)))"

text \<open>\<^verbatim>\<open>TimeSeries.epoch\<close>: \<^verbatim>\<open>self._times.min()\<close>.\<close>

definition ts_epoch :: "'a TimeSeries \<Rightarrow> error + real" where
  "ts_epoch t = array_min (ts_times t)"

text \<open>\<^verbatim>\<open>FrequencySeries.duration\<close>: \<^verbatim>\<open>1 / self.basic_df\<close>.\<close>

definition ser_duration :: "'a FrequencySeries \<Rightarrow> real" where
  "ser_duration s = 1 / ser_basic_df s"

text \<open>
  \<^verbatim>\<open>FrequencySeries.__init__\<close> with \<^verbatim>\<open>frequency_grid\<close> and \<^verbatim>\<open>epoch\<close> given: fewer than one
  sample is a ValueError, and the assertion compares the two lengths.
\<close>

definition FrequencySeries_init ::
  "'a list \<Rightarrow> FrequencySamples \<Rightarrow> real \<Rightarrow> error + 'a FrequencySeries" where
  "FrequencySeries_init initial_array frequency_grid epoch =
     (if length initial_array < 1 then Inl ValueError
      else if length initial_array \<noteq> length (fs_data frequency_grid) then Inl AssertionError
      else Inr \<lparr>ser_data = initial_array, ser_freqs = frequency_grid, ser_epoch = epoch\<rparr>)"

text \<open>
  \<^verbatim>\<open>FrequencySamples.__init__\<close> from an explicit plain sequence (\<^verbatim>\<open>initial_array\<close> not a
  \<^verbatim>\<open>FrequencySamples\<close>, \<^verbatim>\<open>df\<close> and \<^verbatim>\<open>samples_per_peak\<close> not given): the spacing is
  \<^verbatim>\<open>initial_array[1] - initial_array[0]\<close>, the oversampling factor is 1.
\<close>

definition FrequencySamples_of_array :: "real list \<Rightarrow> error + FrequencySamples" where
  "FrequencySamples_of_array initial_array =
     (if length initial_array < 2 then Inl IndexError
      else Inr \<lparr>fs_data = initial_array, fs_df = initial_array ! 1 - initial_array ! 0,
                fs_n_per_peak = 1\<rparr>)"

text \<open>
  Element-wise product of the samples with a window, \<^verbatim>\<open>self._data * window\<close>, with numpy's
  broadcasting of one-dimensional operands: equal lengths multiply pointwise, an operand
  of length one is repeated, anything else is a ValueError.
\<close>

definition window_mul :: "('a::real_vector) list \<Rightarrow> real list \<Rightarrow> error + 'a list" where
  "window_mul xs w =
     (if length xs = length w then Inr (map2 (\<lambda>c x. scaleR c x) w xs)
      else if length w = 1 then Inr (map (\<lambda>x. scaleR (hd w) x) xs)
      else if length xs = 1 then Inr (map (\<lambda>c. scaleR c (hd xs)) w)
      else Inl ValueError)"

section \<open>Domain conversion\<close>

text \<open>
  The regressor of the regression method is an external collaborator. Of a regressor
  \<open>r\<close> the conversion uses \<^verbatim>\<open>r.frequency\<close> and
  \<^verbatim>\<open>r.get_ft(series, phi=Dictionary(times, frequencies))\<close>; the latter is a function of the
  regressor, the series, and the times and frequencies the dictionary is built from.
\<close>

record ('r, 'a, 'b) regressor_api =
  reg_frequency :: "'r \<Rightarrow> FrequencySamples"
  reg_get_ft :: "'r \<Rightarrow> 'a TimeSeries \<Rightarrow> real list \<Rightarrow> FrequencySamples \<Rightarrow> 'b list"

text \<open>
  \<^verbatim>\<open>TimeSeries.regression\<close>: a missing regressor is a ValueError, whatever the other
  arguments are.
\<close>

definition regression ::
  "('r, 'a, 'b) regressor_api \<Rightarrow> 'a TimeSeries \<Rightarrow> 'a TimeSeries \<Rightarrow> 'r option \<Rightarrow>
   FrequencySamples option \<Rightarrow> error + 'b FrequencySeries" where
  "regression api self series regressor frequencies =
     (case regressor of
        None \<Rightarrow> Inl ValueError
      | Some r \<Rightarrow>
          (let fr = (case frequencies of None \<Rightarrow> reg_frequency api r | Some g \<Rightarrow> g) in
           case ts_epoch self of
             Inl e \<Rightarrow> Inl e
           | Inr ep \<Rightarrow> FrequencySeries_init (reg_get_ft api r series (ts_times self) fr) fr ep))"

text \<open>
  The non-uniform transform solver is an external collaborator with a state of its own.
  \<open>solver_start Nf x y flags\<close> is the solver after \<^verbatim>\<open>NFFT(Nf, len(self))\<close>, the
  assignment of the positions \<^verbatim>\<open>plan.x\<close> and of the samples \<^verbatim>\<open>solv.y\<close>, and
  \<^verbatim>\<open>before_loop()\<close>; \<open>loop_one_step\<close> is one refinement step; \<open>r_iter\<close> and \<open>f_hat_iter\<close>
  read the residuals and the coefficients. The residuals are taken as reals, in the
  order in which \<^verbatim>\<open>max\<close> and \<^verbatim>\<open><\<close> compare them.
\<close>

record ('s, 'a, 'b, 'f) solver_api =
  solver_start :: "nat \<Rightarrow> real list \<Rightarrow> 'a list \<Rightarrow> 'f option \<Rightarrow> 's"
  loop_one_step :: "'s \<Rightarrow> 's"
  r_iter :: "'s \<Rightarrow> real list"
  f_hat_iter :: "'s \<Rightarrow> 'b list"

text \<open>
  The refinement loop of \<^verbatim>\<open>TimeSeries.ts_nfft\<close>:
  \<^verbatim>\<open>
  while True:
      solv.loop_one_step()
      if max(solv.r_iter) < tol: break
      if count == 500: print(...); break
      count += 1
  \<close>
  The result is the solver's state and the value of \<^verbatim>\<open>count\<close> at the \<^verbatim>\<open>break\<close>. The
  built-in \<^verbatim>\<open>max\<close> of an empty residual sequence is a ValueError. A loop that does not
  return has the value \<open>None\<close>.
\<close>

partial_function (option) refinement_loop ::
  "('s \<Rightarrow> 's) \<Rightarrow> ('s \<Rightarrow> real list) \<Rightarrow> real \<Rightarrow> 's \<Rightarrow> nat \<Rightarrow> (error + 's \<times> nat) option" where
  "refinement_loop step resid tol solv count =
     (let solv' = step solv in
      if resid solv' = [] then Some (Inl ValueError)
      else if Max (set (resid solv')) < tol then Some (Inr (solv', count))
      else if count = 500 then Some (Inr (solv', count))
      else refinement_loop step resid tol solv' (count + 1))"

declare refinement_loop.simps [code]

text \<open>
  \<^verbatim>\<open>np.fft.fftfreq(Nf) * Nf\<close>: the integers \<open>0, 1, \<dots>, (Nf - 1) div 2\<close> followed by
  \<open>- (Nf div 2), \<dots>, - 1\<close>.
\<close>

definition fftfreq_index :: "nat \<Rightarrow> int list" where
  "fftfreq_index Nf =
     (if Nf = 0 then [] else [0 .. (int Nf - 1) div 2] @ [- (int Nf div 2) .. - 1])"

text \<open>
  \<^verbatim>\<open>TimeSeries.ts_nfft\<close>: start the solver, run the refinement loop, and wrap the
  coefficients \<^verbatim>\<open>solv.f_hat_iter\<close> on the grid \<^verbatim>\<open>fftfreq(Nf) * Nf / duration\<close>.
\<close>

definition ts_nfft ::
  "('s, 'a, 'b, 'f) solver_api \<Rightarrow> 'a TimeSeries \<Rightarrow> 'a TimeSeries \<Rightarrow> nat option \<Rightarrow> real \<Rightarrow>
   'f option \<Rightarrow> (error + 'b FrequencySeries) option" where
  "ts_nfft api self series Nf tol flags =
     (let Nf' = (case Nf of None \<Rightarrow> length (ts_data self) | Some k \<Rightarrow> k) in
      case refinement_loop (loop_one_step api) (r_iter api) tol
             (solver_start api Nf' (ts_times self) (ts_data series) flags) 0 of
        None \<Rightarrow> None
      | Some (Inl e) \<Rightarrow> Some (Inl e)
      | Some (Inr (solv, count)) \<Rightarrow>
          Some (case duration (ts_times self) of
                  Inl e \<Rightarrow> Inl e
                | Inr dur \<Rightarrow>
                    (case FrequencySamples_of_array
                            (map (\<lambda>k. real_of_int k / dur) (fftfreq_index Nf')) of
                       Inl e \<Rightarrow> Inl e
                     | Inr freqs \<Rightarrow>
                         (case ts_epoch self of
                            Inl e \<Rightarrow> Inl e
                          | Inr ep \<Rightarrow> FrequencySeries_init (f_hat_iter api solv) freqs ep))))"

text \<open>
  \<^verbatim>\<open>TimeSeries.to_frequencyseries(frequency_grid, method, window, **kwargs)\<close>. The keyword
  arguments it reads are \<^verbatim>\<open>reg\<close>, \<^verbatim>\<open>Nf\<close> and \<^verbatim>\<open>flags\<close>, each \<open>None\<close> when absent. The
  method is compared with the two literals; the tolerance of \<^verbatim>\<open>ts_nfft\<close> is left at its
  default 0.6.
\<close>

definition to_frequencyseries ::
  "('r, 'a::real_vector, 'b) regressor_api \<Rightarrow> ('s, 'a, 'b, 'f) solver_api \<Rightarrow> 'a TimeSeries \<Rightarrow>
   FrequencySamples option \<Rightarrow> string \<Rightarrow> real list option \<Rightarrow> 'r option \<Rightarrow> nat option \<Rightarrow>
   'f option \<Rightarrow> (error + 'b FrequencySeries) option" where
  "to_frequencyseries rapi sapi self frequency_grid method window reg Nf flags =
     (if ts_kind self = complex_kind then Some (Inl TypeError)
      else
        case (case window of
                None \<Rightarrow> TimeSeries_init (ts_data self) (ts_times self) (ts_kind self)
              | Some w \<Rightarrow>
                  (case window_mul (ts_data self) w of
                     Inl e \<Rightarrow> Inl e
                   | Inr ary \<Rightarrow> TimeSeries_init ary (ts_times self) (ts_kind self))) of
          Inl e \<Rightarrow> Some (Inl e)
        | Inr series \<Rightarrow>
            if method = ''regression'' then Some (regression rapi self series reg frequency_grid)
            else if method = ''nfft'' then ts_nfft sapi self series Nf (6 / 10) flags
            else Some (Inl ValueError))"

section \<open>Similarity of frequency series\<close>

text \<open>The second operand of \<^verbatim>\<open>match\<close> is a time series or a frequency series.\<close>

datatype ('a, 'b) operand = TS "'a TimeSeries" | FS "'b FrequencySeries"

text \<open>
  \<^verbatim>\<open>FrequencySeries.match(other, psd, tol)\<close>. A time series is checked against the
  tolerance and then converted by \<^verbatim>\<open>other.to_frequencyseries()\<close>, with no argument at
  all. The two assertions follow, and the score is computed by the external function
  \<^verbatim>\<open>mfilter.filter.match\<close>, here \<open>score\<close>.
\<close>

definition match ::
  "('r, 'a::real_vector, 'b) regressor_api \<Rightarrow> ('s, 'a, 'b, 'f) solver_api \<Rightarrow>
   ('b FrequencySeries \<Rightarrow> 'b FrequencySeries \<Rightarrow> 'p list option \<Rightarrow> 'm) \<Rightarrow>
   'b FrequencySeries \<Rightarrow> ('a, 'b) operand \<Rightarrow> 'p list option \<Rightarrow> real \<Rightarrow> (error + 'm) option" where
  "match rapi sapi score self other psd tol =
     (case (case other of
              FS f \<Rightarrow> Some (Inr f)
            | TS t \<Rightarrow>
                (case duration (ts_times t) of
                   Inl e \<Rightarrow> Some (Inl e)
                 | Inr dur \<Rightarrow>
                     if \<bar>dur / ser_duration self - 1\<bar> > tol then Some (Inl ValueError)
                     else to_frequencyseries rapi sapi t None ''regression'' None None None None)) of
        None \<Rightarrow> None
      | Some (Inl e) \<Rightarrow> Some (Inl e)
      | Some (Inr other') \<Rightarrow>
          Some (if length (ser_data other') \<noteq> length (ser_data self) then Inl AssertionError
                else case psd of
                       None \<Rightarrow> Inr (score self other' psd)
                     | Some p \<Rightarrow>
                         if length p \<noteq> length (ser_data self) then Inl AssertionError
                         else Inr (score self other' psd)))"

section \<open>Frequency grid: sizing from a time grid\<close>

text \<open>
  Python's \<^verbatim>\<open>round\<close> of a float: the nearest integer, a tie going to the even
  neighbour.
\<close>

definition round_py :: "real \<Rightarrow> int" where
  "round_py x =
     (let f = \<lfloor>x\<rfloor> in
      if x - of_int f < 1 / 2 then f
      else if 1 / 2 < x - of_int f then f + 1
      else if even f then f else f + 1)"

text \<open>
  \<^verbatim>\<open>FrequencySamples.__init__\<close> with \<^verbatim>\<open>initial_array=None\<close>: the sizing from the source time
  grid \<^verbatim>\<open>input_time\<close>. An \<^verbatim>\<open>input_time\<close> that is no array is a ValueError, and so are the
  maximum and minimum of an empty one. \<^verbatim>\<open>np.arange(n_samples)\<close> is empty for a negative
  count. When \<^verbatim>\<open>maximum_frequency\<close> is absent and \<^verbatim>\<open>n_samples\<close> is given, the count is
  taken as given.
\<close>

definition FrequencySamples_init ::
  "real list option \<Rightarrow> real option \<Rightarrow> real option \<Rightarrow> real option \<Rightarrow> real \<Rightarrow> int option \<Rightarrow>
   error + FrequencySamples" where
  "FrequencySamples_init input_time minimum_frequency maximum_frequency samples_per_peak
     nyquist_factor n_samples =
     (case input_time of
        None \<Rightarrow> Inl ValueError
      | Some tms \<Rightarrow>
          (let spp = (case samples_per_peak of None \<Rightarrow> 5 | Some k \<Rightarrow> k) in
           case duration tms of
             Inl e \<Rightarrow> Inl e
           | Inr dur \<Rightarrow>
               (let df = 1 / dur / spp;
                    fmin = (case minimum_frequency of None \<Rightarrow> 0 | Some m \<Rightarrow> m);
                    n = (case maximum_frequency of
                           None \<Rightarrow>
                             (case n_samples of
                                None \<Rightarrow>
                                  (let average_nyq = 0.5 * real (length tms) / dur;
                                       fmax = nyquist_factor * average_nyq
                                   in 1 + round_py ((fmax - fmin) / df))
                              | Some k \<Rightarrow> k)
                         | Some fmax \<Rightarrow> 1 + round_py ((fmax - fmin) / df))
                in Inr \<lparr>fs_data = map (\<lambda>i. fmin + df * real i) [0 ..< nat n], fs_df = df,
                        fs_n_per_peak = spp\<rparr>)))"

section \<open>Irregular time grids\<close>

text \<open>\<^verbatim>\<open>np.arange(n) * dt\<close>; the range is empty for a negative \<open>n\<close>.\<close>

definition arange_times :: "int \<Rightarrow> real \<Rightarrow> real list" where
  "arange_times n dt = map (\<lambda>i. real i * dt) [0 ..< nat n]"

text \<open>\<^verbatim>\<open>IrregularTimeSamples\<close> (timeseries.py): the count, the spacing and the working grid.\<close>

record IrregularTimeSamples =
  its_n :: int
  its_dt :: real
  its_t :: "real list"

text \<open>\<^verbatim>\<open>IrregularTimeSamples.__init__(n, dt, grid)\<close>.\<close>

definition IrregularTimeSamples_init ::
  "int \<Rightarrow> real \<Rightarrow> real list option \<Rightarrow> error + IrregularTimeSamples" where
  "IrregularTimeSamples_init n dt grid =
     (if dt \<le> 0 then Inl ValueError
      else
        let g = (case grid of None \<Rightarrow> arange_times n dt | Some g \<Rightarrow> g) in
        if n \<noteq> int (length g) then Inl ValueError
        else Inr \<lparr>its_n = n, its_dt = dt, its_t = g\<rparr>)"

text \<open>
  The keyword arguments of \<^verbatim>\<open>compute\<close>, each \<open>None\<close> when the caller leaves it out, and the
  random draws that \<^verbatim>\<open>_set_kwargs\<close> and \<^verbatim>\<open>_auto_mix\<close> make. The draws are inputs of the
  model: \<open>rnd_epsilon i\<close> is the \<open>i\<close>-th value of \<^verbatim>\<open>np.random.normal(0, sigma * dt, n)\<close>,
  and so on for the other calls.
\<close>

record kwargs =
  kw_offset :: "real option"
  kw_sigma :: "real option"
  kw_epsilon :: "real list option"
  kw_break_point :: "int option"
  kw_empty_window :: "real option"
  kw_start_point :: "int option"
  kw_end_point :: "int option"
  kw_gamma :: "real option"

record draws =
  rnd_epsilon :: "nat \<Rightarrow> real"
  rnd_break_point :: int
  rnd_empty_window :: real
  rnd_start_point :: int
  mix_gamma :: real
  mix_offset :: real
  mix_empty_window :: real
  mix_epsilon :: "nat \<Rightarrow> real"

text \<open>The keyword arguments after \<^verbatim>\<open>_set_kwargs\<close>; only \<^verbatim>\<open>gamma\<close> has no default.\<close>

record settings =
  set_offset :: real
  set_sigma :: real
  set_epsilon :: "real list"
  set_break_point :: int
  set_empty_window :: real
  set_start_point :: int
  set_end_point :: int
  set_gamma :: "real option"

text \<open>
  \<^verbatim>\<open>_set_kwargs\<close>. The draws are made whether or not the caller supplied the value:
  \<^verbatim>\<open>np.random.normal\<close> refuses a negative scale and \<^verbatim>\<open>np.random.randint(0, n)\<close> an
  empty range, each with a ValueError.
\<close>

definition set_kwargs :: "IrregularTimeSamples \<Rightarrow> kwargs \<Rightarrow> draws \<Rightarrow> error + settings" where
  "set_kwargs self kw rnd =
     (let offset = (case kw_offset kw of None \<Rightarrow> 0 | Some v \<Rightarrow> v);
          sigma = (case kw_sigma kw of None \<Rightarrow> 0.05 | Some v \<Rightarrow> v)
      in if sigma * its_dt self < 0 then Inl ValueError
         else if its_n self \<le> 0 then Inl ValueError
         else Inr \<lparr>set_offset = offset, set_sigma = sigma,
                    set_epsilon = (case kw_epsilon kw of
                                     None \<Rightarrow> map (rnd_epsilon rnd) [0 ..< nat (its_n self)]
                                   | Some v \<Rightarrow> v),
                    set_break_point = (case kw_break_point kw of
                                         None \<Rightarrow> rnd_break_point rnd | Some v \<Rightarrow> v),
                    set_empty_window = (case kw_empty_window kw of
                                          None \<Rightarrow> rnd_empty_window rnd | Some v \<Rightarrow> v),
                    set_start_point = (case kw_start_point kw of
                                         None \<Rightarrow> rnd_start_point rnd | Some v \<Rightarrow> v),
                    set_end_point = (case kw_end_point kw of None \<Rightarrow> its_n self | Some v \<Rightarrow> v),
                    set_gamma = kw_gamma kw\<rparr>)"

text \<open>
  \<^verbatim>\<open>_add_irregularities\<close>: \<^verbatim>\<open>self.t[i] += epsilon[i]\<close> for \<open>i\<close> below \<open>n\<close>; an index beyond
  either sequence is an IndexError.
\<close>

definition add_irregularities ::
  "IrregularTimeSamples \<Rightarrow> real list \<Rightarrow> error + IrregularTimeSamples" where
  "add_irregularities self epsilon =
     (let k = nat (its_n self) in
      if length epsilon < k \<or> length (its_t self) < k then Inl IndexError
      else Inr (self\<lparr>its_t := map2 (+) (take k (its_t self)) (take k epsilon)
                                  @ drop k (its_t self)\<rparr>))"

text \<open>
  \<^verbatim>\<open>_normalize(offset)\<close>:
  \<^verbatim>\<open>if self.t.min() < offset: self.t += offset - abs(self.t.min())\<close>.
\<close>

definition normalize :: "IrregularTimeSamples \<Rightarrow> real \<Rightarrow> error + IrregularTimeSamples" where
  "normalize self offset =
     (case array_min (its_t self) of
        Inl e \<Rightarrow> Inl e
      | Inr m \<Rightarrow>
          Inr (if m < offset then self\<lparr>its_t := map (\<lambda>x. x + (offset - \<bar>m\<bar>)) (its_t self)\<rparr>
               else self))"

text \<open>\<^verbatim>\<open>_base\<close>: the jitter, then the normalization.\<close>

definition base :: "IrregularTimeSamples \<Rightarrow> settings \<Rightarrow> error + IrregularTimeSamples" where
  "base self st =
     (case add_irregularities self (set_epsilon st) of
        Inl e \<Rightarrow> Inl e
      | Inr self' \<Rightarrow> normalize self' (set_offset st))"

text \<open>
  A bound of a Python slice on a sequence of length \<open>len\<close>: a negative bound counts from
  the end, and the result is clipped to the sequence.
\<close>

definition slice_bound :: "nat \<Rightarrow> int \<Rightarrow> nat" where
  "slice_bound len i = (if i < 0 then nat (int len + i) else min len (nat i))"

text \<open>In-place update \<^verbatim>\<open>xs[lo:hi] = f(xs[lo:hi])\<close>, element by element.\<close>

definition update_slice :: "(real \<Rightarrow> real) \<Rightarrow> int \<Rightarrow> int option \<Rightarrow> real list \<Rightarrow> real list" where
  "update_slice f lo hi xs =
     (let a = slice_bound (length xs) lo;
          b = (case hi of None \<Rightarrow> length xs | Some h \<Rightarrow> slice_bound (length xs) h)
      in map (\<lambda>(i, x). if a \<le> i \<and> i < b then f x else x) (enumerate 0 xs))"

text \<open>\<^verbatim>\<open>_outlier\<close>: \<^verbatim>\<open>self.t[break_point:] += empty_window\<close>, then \<^verbatim>\<open>_base\<close>.\<close>

definition outlier :: "IrregularTimeSamples \<Rightarrow> settings \<Rightarrow> error + IrregularTimeSamples" where
  "outlier self st =
     base (self\<lparr>its_t := update_slice (\<lambda>x. x + set_empty_window st) (set_break_point st) None
                            (its_t self)\<rparr>) st"

text \<open>
  \<^verbatim>\<open>_change_spacing\<close>: \<^verbatim>\<open>self.t[start_point:end_point] *= gamma\<close>, then \<^verbatim>\<open>_base\<close>; a
  missing \<^verbatim>\<open>gamma\<close> is the TypeError of multiplying by \<^verbatim>\<open>None\<close>.
\<close>

definition change_spacing ::
  "IrregularTimeSamples \<Rightarrow> settings \<Rightarrow> error + IrregularTimeSamples" where
  "change_spacing self st =
     (case set_gamma st of
        None \<Rightarrow> Inl TypeError
      | Some gamma \<Rightarrow>
          base (self\<lparr>its_t := update_slice (\<lambda>x. x * gamma) (set_start_point st)
                                 (Some (set_end_point st)) (its_t self)\<rparr>) st)"

text \<open>\<^verbatim>\<open>_auto_mix\<close>, with its own draws.\<close>

definition auto_mix :: "IrregularTimeSamples \<Rightarrow> draws \<Rightarrow> error + IrregularTimeSamples" where
  "auto_mix self rnd =
     (let n = its_n self;
          t1 = sort (its_t self);
          t2 = update_slice (\<lambda>x. x * mix_gamma rnd) (2 * (n div 5)) (Some (4 * (n div 5))) t1;
          t3 = update_slice (\<lambda>x. x + mix_empty_window rnd) (3 * (n div 5)) None t2
      in case add_irregularities (self\<lparr>its_t := t3\<rparr>) (map (mix_epsilon rnd) [0 ..< nat n]) of
           Inl e \<Rightarrow> Inl e
         | Inr self' \<Rightarrow> normalize (self'\<lparr>its_t := sort (its_t self')\<rparr>) (mix_offset rnd))"

text \<open>
  \<^verbatim>\<open>compute(struct, clear, **kwargs)\<close>: the recipe is the first of the four substring
  tests on \<^verbatim>\<open>struct\<close> that succeeds; when none does, the grid is returned as it is.
\<close>

definition compute ::
  "IrregularTimeSamples \<Rightarrow> string \<Rightarrow> bool \<Rightarrow> kwargs \<Rightarrow> draws \<Rightarrow> error + real list" where
  "compute self struct clear kw rnd =
     (case set_kwargs self kw rnd of
        Inl e \<Rightarrow> Inl e
      | Inr st \<Rightarrow>
          (let self1 = (if clear then self\<lparr>its_t := arange_times (its_n self) (its_dt self)\<rparr>
                        else self)
           in case (if sublist ''slight'' struct then base self1 st
                    else if sublist ''outlier'' struct then outlier self1 st
                    else if sublist ''change'' struct \<and> sublist ''spacing'' struct
                      then change_spacing self1 st
                    else if sublist ''automix'' struct then auto_mix self1 rnd
                    else Inr self1) of
                Inl e \<Rightarrow> Inl e
              | Inr self2 \<Rightarrow> Inr (its_t self2)))"

section \<open>Spectral estimator\<close>

text \<open>\<^verbatim>\<open>has_zero\<close>: \<^verbatim>\<open>0 in self._data\<close>.\<close>

definition has_zero :: "FrequencySamples \<Rightarrow> bool" where
  "has_zero self = (0 \<in> set (fs_data self))"

text \<open>
  \<^verbatim>\<open>zero_idx\<close>: \<^verbatim>\<open>np.where(self._data == 0)[0][0]\<close>, the index of the first zero, or
  \<open>None\<close>.
\<close>

definition zero_idx :: "FrequencySamples \<Rightarrow> nat option" where
  "zero_idx self =
     (if has_zero self then Some (length (takeWhile (\<lambda>f. f \<noteq> 0) (fs_data self))) else None)"

text \<open>
  \<^verbatim>\<open>split_by_zero\<close>: \<^verbatim>\<open>self._data[:idx], self._data[idx+1:]\<close>; the pair of \<open>None\<close>s of a grid
  without zero is the value \<open>None\<close>.
\<close>

definition split_by_zero :: "FrequencySamples \<Rightarrow> (real list \<times> real list) option" where
  "split_by_zero self =
     (case zero_idx self of
        None \<Rightarrow> None
      | Some idx \<Rightarrow> Some (take idx (fs_data self), drop (idx + 1) (fs_data self)))"

text \<open>
  The periodogram kernel is an external collaborator: an object \<^verbatim>\<open>lomb\<close> built from the
  times, the data and the normalization, whose \<^verbatim>\<open>power(frequencies)\<close> returns one power for
  each frequency it is given. A kernel is modelled by the power it returns at each
  position of the frequency sequence of a call, so that the result has the length of the
  argument.
\<close>

type_synonym kernel = "real list \<Rightarrow> nat \<Rightarrow> real"

definition kernel_power :: "kernel \<Rightarrow> real list \<Rightarrow> real list" where
  "kernel_power lomb freqs = map (lomb freqs) [0 ..< length freqs]"

text \<open>
  The power array of \<^verbatim>\<open>lomb_scargle\<close> (the branch on \<^verbatim>\<open>self.has_zero\<close>), together with the
  frequency sequences passed to the kernel, in the order of the calls. The built-in
  \<^verbatim>\<open>min\<close> of the empty \<^verbatim>\<open>psd[1:]\<close> is a ValueError.
\<close>

definition lomb_scargle_psd ::
  "kernel \<Rightarrow> FrequencySamples \<Rightarrow> real list list \<times> (error + real list)" where
  "lomb_scargle_psd lomb self =
     (if has_zero self then
        (case zero_idx self of
           None \<Rightarrow> ([], Inl TypeError)
         | Some z \<Rightarrow>
             if z = 0 then
               (let rest = kernel_power lomb (drop 1 (fs_data self)) in
                ([drop 1 (fs_data self)],
                 if rest = [] then Inl ValueError else Inr (Min (set rest) # rest)))
             else
               (case split_by_zero self of
                  None \<Rightarrow> ([], Inl TypeError)
                | Some (neg_freq, pos_freq) \<Rightarrow>
                    (let right_psd = kernel_power lomb pos_freq;
                         left_psd = kernel_power lomb (map abs (rev neg_freq));
                         head = rev left_psd
                     in ([pos_freq, map abs (rev neg_freq)],
                         Inr (head @ [Min (set head)] @ right_psd)))))
      else ([map abs (fs_data self)], Inr (kernel_power lomb (map abs (fs_data self)))))"

text \<open>
  The Tukey window is computed by an external library; \<open>tukey M i\<close> is entry \<open>i\<close> of
  \<^verbatim>\<open>signal.windows.tukey(M, alpha=1/8)\<close>.
\<close>

definition tukey_window :: "(nat \<Rightarrow> nat \<Rightarrow> real) \<Rightarrow> nat \<Rightarrow> real list" where
  "tukey_window tukey M = map (tukey M) [0 ..< M]"

text \<open>The taper power \<^verbatim>\<open>W = (window ** 2).sum() / len(window)\<close>.\<close>

definition window_power :: "real list \<Rightarrow> real" where
  "window_power window = sum_list (map (\<lambda>w. w ^ 2) window) / real (length window)"

text \<open>
  \<^verbatim>\<open>lomb_scargle(times, data, package, norm)\<close>. \<open>LombScargle\<close> builds the kernel object on
  \<^verbatim>\<open>times\<close> and \<^verbatim>\<open>data\<close>. The object holds the array \<^verbatim>\<open>data\<close> itself, and
  \<^verbatim>\<open>data *= window\<close> tapers that array in place before any power is computed: the powers
  are those of the tapered data. The result is
  \<^verbatim>\<open>FrequencySeries(psd / W, frequency_grid=self, epoch=times.min())\<close>.
\<close>

definition lomb_scargle ::
  "(real list \<Rightarrow> real list \<Rightarrow> string \<Rightarrow> kernel) \<Rightarrow> (nat \<Rightarrow> nat \<Rightarrow> real) \<Rightarrow> FrequencySamples \<Rightarrow>
   real list \<Rightarrow> real list \<Rightarrow> string \<Rightarrow> string \<Rightarrow> error + real FrequencySeries" where
  "lomb_scargle LombScargle tukey self tms data package normalization =
     (if package \<noteq> ''astropy'' then Inl ValueError
      else
        let window = tukey_window tukey (length data);
            lomb = LombScargle tms (map2 (*) data window) normalization;
            W = window_power window
        in case snd (lomb_scargle_psd lomb self) of
             Inl e \<Rightarrow> Inl e
           | Inr psd \<Rightarrow>
               (case array_min tms of
                  Inl e \<Rightarrow> Inl e
                | Inr ep \<Rightarrow> FrequencySeries_init (map (\<lambda>p. p / W) psd) self ep))"

text \<open>
  \<^verbatim>\<open>TimeSeries.psd(frequency_grid)\<close>:
  \<^verbatim>\<open>frequency_grid.lomb_scargle(self.times, self.value)\<close>.
\<close>

definition psd ::
  "(real list \<Rightarrow> real list \<Rightarrow> string \<Rightarrow> kernel) \<Rightarrow> (nat \<Rightarrow> nat \<Rightarrow> real) \<Rightarrow> real TimeSeries \<Rightarrow>
   FrequencySamples \<Rightarrow> error + real FrequencySeries" where
  "psd LombScargle tukey self frequency_grid =
     lomb_scargle LombScargle tukey frequency_grid (ts_times self) (ts_data self)
       ''astropy'' ''psd''"

text \<open>\<^verbatim>\<open>np.argmin\<close>: the first index at which the minimum is attained.\<close>

definition argmin :: "real list \<Rightarrow> error + nat" where
  "argmin xs =
     (if xs = [] then Inl ValueError
      else Inr (length (takeWhile (\<lambda>v. v \<noteq> Min (set xs)) xs)))"

text \<open>The slice \<^verbatim>\<open>xs[a:b]\<close> for two indices that are not negative.\<close>

definition slice :: "nat \<Rightarrow> nat \<Rightarrow> 'a list \<Rightarrow> 'a list" where
  "slice a b xs = take (b - a) (drop a xs)"

text \<open>
  \<^verbatim>\<open>TimeSeries.get_time_slice(start_time, end_time)\<close>: the samples from the index
  nearest to \<^verbatim>\<open>start_time\<close> up to, and without, the index nearest to \<^verbatim>\<open>end_time\<close>. The slice
  is a new series (modelled from the spec: slicing a container yields a new container),
  and an empty one is refused by the constructor.
\<close>

definition get_time_slice :: "'a TimeSeries \<Rightarrow> real \<Rightarrow> real \<Rightarrow> error + 'a TimeSeries" where
  "get_time_slice self start_time end_time =
     (case argmin (map (\<lambda>t. \<bar>t - start_time\<bar>) (ts_times self)) of
        Inl e \<Rightarrow> Inl e
      | Inr start_idx \<Rightarrow>
          (case argmin (map (\<lambda>t. \<bar>t - end_time\<bar>) (ts_times self)) of
             Inl e \<Rightarrow> Inl e
           | Inr end_idx \<Rightarrow>
               TimeSeries_init (slice start_idx end_idx (ts_data self))
                 (slice start_idx end_idx (ts_times self)) (ts_kind self)))"

text \<open>
  Indexing \<^verbatim>\<open>xs[i]\<close> with an integer: a negative index counts from the end, an index out
  of range is an IndexError.
\<close>

definition get_item :: "'a list \<Rightarrow> int \<Rightarrow> error + 'a" where
  "get_item xs i =
     (if i < - int (length xs) \<or> int (length xs) \<le> i then Inl IndexError
      else if i < 0 then Inr (xs ! nat (int (length xs) + i))
      else Inr (xs ! nat i))"



text \<open>
  The final segment of \<^verbatim>\<open>lomb_welch\<close>:
  \<^verbatim>\<open>data.get_time_slice(times[len(times) - data_per_segment - 1], times[len(times) - 1])\<close>.
\<close>

definition final_segment :: "real list \<Rightarrow> 'a TimeSeries \<Rightarrow> int \<Rightarrow> error + 'a TimeSeries" where
  "final_segment tms data data_per_segment =
     (case get_item tms (int (length tms) - data_per_segment - 1) of
        Inl e \<Rightarrow> Inl e
      | Inr a \<Rightarrow>
          (case get_item tms (int (length tms) - 1) of
             Inl e \<Rightarrow> Inl e
           | Inr b \<Rightarrow> get_time_slice data a b))"






section \<open>Properties\<close>

subsection \<open>Equality of frequency series\<close>

text \<open>
  Claim C8. Two frequency series compare equal only when they have equal samples, equal
  epoch and equal \<^verbatim>\<open>basic_df\<close>; two series with identical samples and identical epoch but
  different \<^verbatim>\<open>basic_df\<close> compare unequal.
\<close>

theorem FrequencySeries_eq_requires:
  "(FrequencySeries_eq a b \<longrightarrow>
      ser_data a = ser_data b \<and> ser_epoch a = ser_epoch b \<and> ser_basic_df a = ser_basic_df b)
   \<and> (ser_data a = ser_data b \<and> ser_epoch a = ser_epoch b \<and> ser_basic_df a \<noteq> ser_basic_df b
        \<longrightarrow> \<not> FrequencySeries_eq a b)"
  by (simp add: FrequencySeries_eq_def array_eq_def)

theorem FrequencySeries_eq_requires_witness:
  "FrequencySeries_eq
     \<lparr>ser_data = [1, 2 :: real], ser_freqs = \<lparr>fs_data = [0, 1], fs_df = 1, fs_n_per_peak = 1\<rparr>,
      ser_epoch = 0\<rparr>
     \<lparr>ser_data = [1, 2], ser_freqs = \<lparr>fs_data = [0, 2], fs_df = 1 / 2, fs_n_per_peak = 2\<rparr>,
      ser_epoch = 0\<rparr>
   \<and> \<not> FrequencySeries_eq
     \<lparr>ser_data = [1, 2 :: real], ser_freqs = \<lparr>fs_data = [0, 1], fs_df = 1, fs_n_per_peak = 1\<rparr>,
      ser_epoch = 0\<rparr>
     \<lparr>ser_data = [1, 2], ser_freqs = \<lparr>fs_data = [0, 1], fs_df = 1, fs_n_per_peak = 5\<rparr>,
      ser_epoch = 0\<rparr>"
  using FrequencySeries_eq_requires
    [of "\<lparr>ser_data = [1, 2 :: real],
          ser_freqs = \<lparr>fs_data = [0, 1], fs_df = 1, fs_n_per_peak = 1\<rparr>, ser_epoch = 0\<rparr>"
        "\<lparr>ser_data = [1, 2 :: real],
          ser_freqs = \<lparr>fs_data = [0, 1], fs_df = 1, fs_n_per_peak = 5\<rparr>, ser_epoch = 0\<rparr>"]
  by (simp add: FrequencySeries_eq_def array_eq_def ser_basic_df_def basic_df_def)

subsection \<open>The sampling-theorem check\<close>

text \<open>
  Claim C9. On a non-empty frequency grid, \<^verbatim>\<open>check_nsst(B)\<close> returns true exactly when
  \<open>2 * B\<close> is below the grid's maximum; at the boundary \<open>2 * B = max(grid)\<close> it returns
  false.
\<close>

theorem check_nsst_iff:
  "fs_data g \<noteq> [] \<Longrightarrow>
     check_nsst g B = Inr (2 * B < Max (set (fs_data g)))
     \<and> (2 * B = Max (set (fs_data g)) \<longrightarrow> check_nsst g B = Inr False)"
  by (simp add: check_nsst_def array_max_def)

theorem check_nsst_iff_witness:
  "fs_data \<lparr>fs_data = [0, 1, 2], fs_df = 1, fs_n_per_peak = 1\<rparr> \<noteq> []
   \<and> check_nsst \<lparr>fs_data = [0, 1, 2], fs_df = 1, fs_n_per_peak = 1\<rparr> 1 = Inr False
   \<and> check_nsst \<lparr>fs_data = [0, 1, 2], fs_df = 1, fs_n_per_peak = 1\<rparr> (1 / 2) = Inr True"
  using check_nsst_iff [of "\<lparr>fs_data = [0, 1, 2], fs_df = 1, fs_n_per_peak = 1\<rparr>" 1]
    check_nsst_iff [of "\<lparr>fs_data = [0, 1, 2], fs_df = 1, fs_n_per_peak = 1\<rparr>" "1 / 2"]
  by simp

subsection \<open>The refinement loop of the non-uniform transform\<close>

text \<open>
  Started at \<open>count = 0\<close> (or anywhere up to 500) the loop returns: with a ValueError when
  a step leaves no residual, and otherwise with the state after \<open>Suc (c - count)\<close> steps,
  where \<open>c\<close> is the final count, at most 500. It stops at the first step whose largest
  residual is below the tolerance, or else at \<open>c = 500\<close>.
\<close>

lemma refinement_loop_total:
  "count \<le> 500 \<Longrightarrow>
    \<exists>r. refinement_loop step resid tol s count = Some r \<and>
      (\<forall>s' c. r = Inr (s', c) \<longrightarrow>
         count \<le> c \<and> c \<le> 500 \<and> s' = (step ^^ Suc (c - count)) s \<and>
         (Max (set (resid s')) < tol \<or> c = 500) \<and>
         (\<forall>k. 1 \<le> k \<and> k \<le> c - count \<longrightarrow> \<not> Max (set (resid ((step ^^ k) s))) < tol))"
proof (induction "500 - count" arbitrary: count s)
  case 0
  then have "count = 500" by simp
  then show ?case by (subst refinement_loop.simps) (simp add: Let_def)
next
  case (Suc n)
  then have lt: "count < 500" and n: "n = 500 - (count + 1)" by simp_all
  show ?case
  proof (cases "resid (step s) = [] \<or> Max (set (resid (step s))) < tol")
    case True
    then show ?thesis using lt by (subst refinement_loop.simps) (auto simp add: Let_def)
  next
    case False
    from Suc.hyps(1) [OF n, of "step s"] lt
    obtain r where r: "refinement_loop step resid tol (step s) (count + 1) = Some r"
      and p: "\<forall>s' c. r = Inr (s', c) \<longrightarrow>
         count + 1 \<le> c \<and> c \<le> 500 \<and> s' = (step ^^ Suc (c - (count + 1))) (step s) \<and>
         (Max (set (resid s')) < tol \<or> c = 500) \<and>
         (\<forall>k. 1 \<le> k \<and> k \<le> c - (count + 1) \<longrightarrow>
              \<not> Max (set (resid ((step ^^ k) (step s)))) < tol)"
      by auto
    have eq: "refinement_loop step resid tol s count = Some r"
      using False lt r by (subst refinement_loop.simps) (simp add: Let_def)
    have "\<forall>s' c. r = Inr (s', c) \<longrightarrow>
         count \<le> c \<and> c \<le> 500 \<and> s' = (step ^^ Suc (c - count)) s \<and>
         (Max (set (resid s')) < tol \<or> c = 500) \<and>
         (\<forall>k. 1 \<le> k \<and> k \<le> c - count \<longrightarrow> \<not> Max (set (resid ((step ^^ k) s))) < tol)"
    proof (intro allI impI)
      fix s' c assume rr: "r = Inr (s', c)"
      with p have a: "count + 1 \<le> c" "c \<le> 500"
        "s' = (step ^^ Suc (c - (count + 1))) (step s)"
        "Max (set (resid s')) < tol \<or> c = 500"
        and b: "\<forall>k. 1 \<le> k \<and> k \<le> c - (count + 1) \<longrightarrow>
              \<not> Max (set (resid ((step ^^ k) (step s)))) < tol"
        by blast+
      have c1: "Suc (c - count) = Suc (Suc (c - (count + 1)))" using a(1) by simp
      have s1: "s' = (step ^^ Suc (c - count)) s"
        unfolding c1 using a(3) by (simp only: funpow_Suc_right o_apply)
      have "\<not> Max (set (resid ((step ^^ k) s))) < tol" if k: "1 \<le> k" "k \<le> c - count" for k
      proof (cases "k = 1")
        case True
        then show ?thesis using False by simp
      next
        case False
        then obtain j where j: "k = Suc j" "1 \<le> j" using k(1) by (cases k) auto
        then have "j \<le> c - (count + 1)" using k(2) by simp
        with b j(2) have "\<not> Max (set (resid ((step ^^ j) (step s)))) < tol" by blast
        moreover have "(step ^^ k) s = (step ^^ j) (step s)"
          unfolding j(1) by (simp only: funpow_Suc_right o_apply)
        ultimately show ?thesis by simp
      qed
      then show "count \<le> c \<and> c \<le> 500 \<and> s' = (step ^^ Suc (c - count)) s \<and>
         (Max (set (resid s')) < tol \<or> c = 500) \<and>
         (\<forall>k. 1 \<le> k \<and> k \<le> c - count \<longrightarrow> \<not> Max (set (resid ((step ^^ k) s))) < tol)"
        using a s1 by auto
    qed
    with eq show ?thesis by blast
  qed
qed

text \<open>
  When no step brings the largest residual below the tolerance, the loop started at
  \<open>count\<close> performs \<open>501 - count\<close> steps: the cap is tested after the step, against a
  count that starts at 0.
\<close>

lemma refinement_loop_never_below:
  assumes "\<And>x. resid x \<noteq> [] \<and> \<not> Max (set (resid x)) < tol"
  shows "count \<le> 500 \<Longrightarrow>
    refinement_loop step resid tol s count = Some (Inr ((step ^^ (501 - count)) s, 500))"
proof (induction "500 - count" arbitrary: count s)
  case 0
  then have "count = 500" by simp
  then show ?case using assms by (subst refinement_loop.simps) (simp add: Let_def)
next
  case (Suc n)
  then have lt: "count < 500" and n: "n = 500 - (count + 1)" by simp_all
  have "refinement_loop step resid tol (step s) (count + 1)
          = Some (Inr ((step ^^ (501 - (count + 1))) (step s), 500))"
    using Suc.hyps(1) [OF n] lt by simp
  moreover have "(step ^^ (501 - (count + 1))) (step s) = (step ^^ (501 - count)) s"
  proof -
    have "501 - count = Suc (501 - (count + 1))" using lt by simp
    then show ?thesis by (simp only: funpow_Suc_right o_apply)
  qed
  ultimately show ?case using assms lt
    by (subst refinement_loop.simps) (simp add: Let_def)
qed

text \<open>
  Claim C5. The claim bounds the refinement by 500 steps. With a solver whose state
  counts its own steps and whose residual stays at 1, above the default tolerance 0.6,
  the loop of \<^verbatim>\<open>ts_nfft\<close> returns after 501 steps, with \<open>count = 500\<close>.
\<close>

theorem refinement_loop_501_steps:
  "refinement_loop Suc (\<lambda>n. [1]) (6 / 10) 0 0 = Some (Inr (501, 500))"
proof -
  have "refinement_loop Suc (\<lambda>n. [1]) (6 / 10) 0 0
          = Some (Inr ((Suc ^^ (501 - 0)) 0, 500))"
    by (rule refinement_loop_never_below) simp_all
  then show ?thesis by (simp add: Suc_funpow)
qed

subsection \<open>Matching against a time series\<close>

text \<open>
  The tolerance test of \<^verbatim>\<open>match\<close> alone: a time series whose duration deviates by more
  than \<open>tol\<close> is rejected with a ValueError.
\<close>

lemma match_tolerance_exceeded:
  assumes "duration (ts_times t) = Inr dur" and "\<bar>dur / ser_duration f - 1\<bar> > tol"
  shows "match rapi sapi score f (TS t) noise tol = Some (Inl ValueError)"
  using assms by (simp add: match_def)

text \<open>
  Two frequency series: the assertions compare the lengths of the operands, and of the
  PSD when there is one, before the score is computed.
\<close>

lemma match_frequency_series:
  "match rapi sapi score f (FS g) noise tol =
     Some (if length (ser_data g) \<noteq> length (ser_data f) then Inl AssertionError
           else if (\<exists>p. noise = Some p \<and> length p \<noteq> length (ser_data f)) then Inl AssertionError
           else Inr (score f g noise))"
  by (cases noise) (simp_all add: match_def)

text \<open>
  Claim C10. For a frequency series \<open>f\<close> and a real-valued time series \<open>t\<close> whose duration
  is within the relative tolerance of the duration of \<open>f\<close>, \<^verbatim>\<open>f.match(t)\<close> raises a
  ValueError all the same, whatever the regressor interface, the solver and the score
  function are: the conversion \<^verbatim>\<open>t.to_frequencyseries()\<close> runs the regression method
  without a regressor.
\<close>

theorem match_time_series_raises:
  assumes "ts_kind t = real_kind"
    and "ser_basic_df f \<noteq> 0"
    and "duration (ts_times t) = Inr dur"
    and "\<not> \<bar>dur / ser_duration f - 1\<bar> > tol"
  shows "to_frequencyseries rapi sapi t None ''regression'' None None None None
           = Some (Inl ValueError)
         \<and> match rapi sapi score f (TS t) noise tol = Some (Inl ValueError)"
  using assms
  by (simp add: match_def to_frequencyseries_def regression_def TimeSeries_init_def)

theorem match_time_series_raises_witness:
  "ts_kind \<lparr>ts_data = [1, 2 :: real], ts_times = [0, 1], ts_kind = real_kind\<rparr> = real_kind
   \<and> ser_basic_df \<lparr>ser_data = [1 :: complex, 2],
        ser_freqs = \<lparr>fs_data = [0, 1], fs_df = 1, fs_n_per_peak = 1\<rparr>, ser_epoch = 0\<rparr> \<noteq> 0
   \<and> duration (ts_times \<lparr>ts_data = [1, 2 :: real], ts_times = [0, 1], ts_kind = real_kind\<rparr>)
       = Inr 1
   \<and> \<not> \<bar>1 / ser_duration \<lparr>ser_data = [1 :: complex, 2],
        ser_freqs = \<lparr>fs_data = [0, 1], fs_df = 1, fs_n_per_peak = 1\<rparr>, ser_epoch = 0\<rparr> - 1\<bar>
        > 1 / 10
   \<and> match
       \<lparr>reg_frequency = \<lambda>r :: unit. \<lparr>fs_data = [0, 1], fs_df = 1, fs_n_per_peak = 1\<rparr>,
        reg_get_ft = \<lambda>r s x g. [0 :: complex, 0]\<rparr>
       \<lparr>solver_start = \<lambda>n x y (fl :: unit option). 0 :: nat, loop_one_step = Suc,
        r_iter = \<lambda>s. [0], f_hat_iter = \<lambda>s. [0 :: complex, 0]\<rparr>
       (\<lambda>a b (p :: real list option). 1 :: real)
       \<lparr>ser_data = [1 :: complex, 2],
        ser_freqs = \<lparr>fs_data = [0, 1], fs_df = 1, fs_n_per_peak = 1\<rparr>, ser_epoch = 0\<rparr>
       (TS \<lparr>ts_data = [1, 2 :: real], ts_times = [0, 1], ts_kind = real_kind\<rparr>)
       None (1 / 10) = Some (Inl ValueError)"
proof -
  have k: "ts_kind \<lparr>ts_data = [1, 2 :: real], ts_times = [0, 1], ts_kind = real_kind\<rparr>
             = real_kind"
    by simp
  have b: "ser_basic_df \<lparr>ser_data = [1 :: complex, 2],
        ser_freqs = \<lparr>fs_data = [0, 1], fs_df = 1, fs_n_per_peak = 1\<rparr>, ser_epoch = 0\<rparr> \<noteq> 0"
    by (simp add: ser_basic_df_def basic_df_def)
  have d: "duration (ts_times \<lparr>ts_data = [1, 2 :: real], ts_times = [0, 1],
             ts_kind = real_kind\<rparr>) = Inr 1"
    by (simp add: duration_def array_max_def array_min_def)
  have c: "\<not> \<bar>1 / ser_duration \<lparr>ser_data = [1 :: complex, 2],
        ser_freqs = \<lparr>fs_data = [0, 1], fs_df = 1, fs_n_per_peak = 1\<rparr>, ser_epoch = 0\<rparr> - 1\<bar>
        > 1 / 10"
    by (simp add: ser_duration_def ser_basic_df_def basic_df_def)
  from match_time_series_raises [OF k b d c] k b d c show ?thesis by blast
qed

text \<open>
  Claim C6. The claim has \<^verbatim>\<open>match\<close> raise exactly when the deviation exceeds the
  tolerance, and not at the boundary. With a frequency series of duration 1, a
  real-valued time series of duration 3/2 and \<open>tol = 1/2\<close> the deviation equals the
  tolerance, the tolerance test passes, and \<^verbatim>\<open>match\<close> raises a ValueError nevertheless,
  from the conversion without a regressor.
\<close>

theorem match_at_tolerance_boundary:
  "duration (ts_times \<lparr>ts_data = [1, 2 :: real], ts_times = [0, 3 / 2], ts_kind = real_kind\<rparr>)
     = Inr (3 / 2)
   \<and> \<bar>(3 / 2) / ser_duration \<lparr>ser_data = [1 :: complex, 2],
          ser_freqs = \<lparr>fs_data = [0, 1], fs_df = 1, fs_n_per_peak = 1\<rparr>, ser_epoch = 0\<rparr> - 1\<bar>
     = 1 / 2
   \<and> match rapi sapi score
       \<lparr>ser_data = [1 :: complex, 2],
        ser_freqs = \<lparr>fs_data = [0, 1], fs_df = 1, fs_n_per_peak = 1\<rparr>, ser_epoch = 0\<rparr>
       (TS \<lparr>ts_data = [1, 2 :: real], ts_times = [0, 3 / 2], ts_kind = real_kind\<rparr>)
       None (1 / 2) = Some (Inl ValueError)"
  by (simp add: match_def to_frequencyseries_def regression_def TimeSeries_init_def
      duration_def array_max_def array_min_def ser_duration_def ser_basic_df_def basic_df_def)

subsection \<open>Sizing of the frequency grid\<close>

text \<open>The rounding of the sample count sends a tie to the even neighbour.\<close>

lemma round_py_ties: "round_py (5 / 2) = 2 \<and> round_py (7 / 2) = 4 \<and> round_py (- 5 / 2) = - 2"
  by (simp add: round_py_def)

text \<open>
  Claim C4, as stated: the grid length equals \<open>1 + round((maximum_frequency -
  minimum_frequency) / df)\<close>. From the time grid \<open>[0, 1]\<close> with \<open>minimum_frequency = 10\<close> and
  \<open>maximum_frequency = 0\<close> the spacing is 1/5, the count is \<open>1 + round(- 50) = - 49\<close>, and
  the grid that is built is empty: its length is 0.
\<close>

theorem FrequencySamples_init_negative_count:
  "FrequencySamples_init (Some [0, 1]) (Some 10) (Some 0) None 2 None
     = Inr \<lparr>fs_data = [], fs_df = 1 / 5, fs_n_per_peak = 5\<rparr>
   \<and> 1 + round_py ((0 - 10) / (1 / 1 / 5)) = - 49"
  by (simp add: FrequencySamples_init_def duration_def array_max_def array_min_def
      round_py_def Let_def)

text \<open>
  Claim C4, amended. For a source time grid of non-zero duration and a non-zero
  \<^verbatim>\<open>samples_per_peak\<close> (5 when absent), with \<^verbatim>\<open>maximum_frequency\<close> given, or derived as
  \<open>nyquist_factor * 0.5 * n / duration\<close> when it and \<^verbatim>\<open>n_samples\<close> are absent: the grid is
  built with \<open>df = 1 / duration / samples_per_peak\<close>, \<^verbatim>\<open>minimum_frequency\<close> 0 when absent,
  length \<open>max 0 (1 + round ((maximum_frequency - minimum_frequency) / df))\<close>, which is
  \<open>1 + round (\<dots>)\<close> whenever that number is not negative, and entry \<open>i\<close> equal to
  \<open>minimum_frequency + df * i\<close>.
\<close>

theorem FrequencySamples_init_sizing:
  assumes "duration tms = Inr dur" and "dur \<noteq> 0"
    and "spp = (case samples_per_peak of None \<Rightarrow> 5 | Some k \<Rightarrow> k)" and "spp \<noteq> 0"
    and "df = 1 / dur / spp"
    and "fmin = (case minimum_frequency of None \<Rightarrow> 0 | Some m \<Rightarrow> m)"
    and "fmax = (case maximum_frequency of
                   None \<Rightarrow> nyquist_factor * (0.5 * real (length tms) / dur) | Some m \<Rightarrow> m)"
    and "maximum_frequency = None \<longrightarrow> n_samples = None"
  shows "\<exists>g. FrequencySamples_init (Some tms) minimum_frequency maximum_frequency
                samples_per_peak nyquist_factor n_samples = Inr g
             \<and> fs_n_per_peak g = spp \<and> fs_df g = df
             \<and> length (fs_data g) = nat (1 + round_py ((fmax - fmin) / df))
             \<and> (0 \<le> 1 + round_py ((fmax - fmin) / df) \<longrightarrow>
                  int (length (fs_data g)) = 1 + round_py ((fmax - fmin) / df))
             \<and> (\<forall>i < length (fs_data g). fs_data g ! i = fmin + df * real i)"
  using assms
  by (cases maximum_frequency)
     (auto simp add: FrequencySamples_init_def Let_def)

theorem FrequencySamples_init_sizing_witness:
  "duration [0, 1] = Inr 1 \<and> (1 :: real) \<noteq> 0 \<and> (5 :: real) \<noteq> 0
   \<and> 0 \<le> 1 + round_py ((1 - 0) / (1 / 1 / 5))
   \<and> (\<exists>g. FrequencySamples_init (Some [0, 1]) None (Some 1) None 2 None = Inr g
          \<and> fs_n_per_peak g = 5 \<and> fs_df g = 1 / 5 \<and> int (length (fs_data g)) = 6
          \<and> (\<forall>i < length (fs_data g). fs_data g ! i = 0 + (1 / 5) * real i))"
proof -
  have d: "duration [0, 1] = Inr 1"
    by (simp add: duration_def array_max_def array_min_def)
  have r: "1 + round_py ((1 - 0) / (1 / 1 / 5)) = 6"
    by (simp add: round_py_def)
  from FrequencySamples_init_sizing [where tms = "[0, 1]" and dur = 1 and spp = 5
      and samples_per_peak = None and df = "1 / 5" and fmin = 0 and minimum_frequency = None
      and fmax = 1 and maximum_frequency = "Some 1" and nyquist_factor = 2
      and n_samples = None, OF d]
  show ?thesis using d r by auto
qed

subsection \<open>The irregular time grid\<close>

lemma Min_shift:
  fixes xs :: "real list"
  assumes "xs \<noteq> []"
  shows "Min (set (map (\<lambda>x. x + c) xs)) = Min (set xs) + c"
proof -
  have "Min ((\<lambda>x. x + c) ` set xs) = Min ((\<lambda>x. x) ` set xs) + c"
    using assms by (intro Min_add_commute) simp_all
  then show ?thesis by simp
qed

text \<open>
  The normalization on a non-empty grid with minimum \<open>m\<close>: nothing changes when
  \<open>offset \<le> m\<close>; when \<open>0 \<le> m < offset\<close> every timestamp moves up by \<open>offset - m\<close> and the new
  minimum is \<open>offset\<close>.
\<close>

lemma normalize_cases:
  assumes "its_t self \<noteq> []"
  shows "\<exists>self'. normalize self offset = Inr self' \<and> its_n self' = its_n self
           \<and> length (its_t self') = length (its_t self)
           \<and> (offset \<le> Min (set (its_t self)) \<longrightarrow> its_t self' = its_t self)
           \<and> (0 \<le> Min (set (its_t self)) \<and> Min (set (its_t self)) < offset \<longrightarrow>
                its_t self' = map (\<lambda>x. x + (offset - Min (set (its_t self)))) (its_t self)
                \<and> Min (set (its_t self')) = offset)"
proof (cases "Min (set (its_t self)) < offset")
  case False
  then show ?thesis using assms by (simp add: normalize_def array_min_def)
next
  case True
  let ?m = "Min (set (its_t self))"
  let ?t' = "map (\<lambda>x. x + (offset - \<bar>?m\<bar>)) (its_t self)"
  have r: "normalize self offset = Inr (self\<lparr>its_t := ?t'\<rparr>)"
    using assms True by (simp add: normalize_def array_min_def)
  have a: "\<not> offset \<le> ?m" using True by simp
  have b: "?t' = map (\<lambda>x. x + (offset - ?m)) (its_t self) \<and> Min (set ?t') = offset"
    if "0 \<le> ?m"
    using Min_shift [OF assms, of "offset - ?m"] that by (simp add: abs_of_nonneg)
  show ?thesis
  proof (intro exI conjI impI)
    show "normalize self offset = Inr (self\<lparr>its_t := ?t'\<rparr>)" by (rule r)
    show "its_n (self\<lparr>its_t := ?t'\<rparr>) = its_n self" by simp
    show "length (its_t (self\<lparr>its_t := ?t'\<rparr>)) = length (its_t self)" by simp
    show "its_t (self\<lparr>its_t := ?t'\<rparr>) = its_t self" if "offset \<le> ?m"
      using a that by blast
    show "its_t (self\<lparr>its_t := ?t'\<rparr>) = map (\<lambda>x. x + (offset - ?m)) (its_t self)"
      if "0 \<le> ?m \<and> ?m < offset"
      using b that by simp
    show "Min (set (its_t (self\<lparr>its_t := ?t'\<rparr>))) = offset" if "0 \<le> ?m \<and> ?m < offset"
      using b that by simp
  qed
qed

text \<open>
  Claim C1, as stated: the returned grid has its minimum at the requested offset, and
  a grid whose minimum is below the offset is shifted up to it. With \<open>n = 2\<close>, \<open>dt = 1\<close>
  and the default offset 0, the jitter \<open>[1/2, 0]\<close> gives the grid \<open>[1/2, 1]\<close>, which is
  returned as it is, with minimum 1/2; the jitter \<open>[- 1/2, 0]\<close> gives \<open>[- 1/2, 1]\<close>, whose
  minimum is below the offset, and the grid returned is \<open>[- 1, 1/2]\<close>, with minimum
  \<open>- 1\<close>.
\<close>

theorem compute_slight_counterexample:
  "IrregularTimeSamples_init 2 1 None = Inr \<lparr>its_n = 2, its_dt = 1, its_t = [0, 1]\<rparr>
   \<and> compute \<lparr>its_n = 2, its_dt = 1, its_t = [0, 1]\<rparr> ''slight'' True
        \<lparr>kw_offset = None, kw_sigma = None, kw_epsilon = Some [1 / 2, 0], kw_break_point = None,
         kw_empty_window = None, kw_start_point = None, kw_end_point = None, kw_gamma = None\<rparr>
        \<lparr>rnd_epsilon = \<lambda>i. 0, rnd_break_point = 0, rnd_empty_window = 0, rnd_start_point = 0,
         mix_gamma = 1, mix_offset = 0, mix_empty_window = 0, mix_epsilon = \<lambda>i. 0\<rparr>
       = Inr [1 / 2, 1]
   \<and> array_min [1 / 2, 1] = Inr (1 / 2)
   \<and> compute \<lparr>its_n = 2, its_dt = 1, its_t = [0, 1]\<rparr> ''slight'' True
        \<lparr>kw_offset = None, kw_sigma = None, kw_epsilon = Some [- 1 / 2, 0], kw_break_point = None,
         kw_empty_window = None, kw_start_point = None, kw_end_point = None, kw_gamma = None\<rparr>
        \<lparr>rnd_epsilon = \<lambda>i. 0, rnd_break_point = 0, rnd_empty_window = 0, rnd_start_point = 0,
         mix_gamma = 1, mix_offset = 0, mix_empty_window = 0, mix_epsilon = \<lambda>i. 0\<rparr>
       = Inr [- 1, 1 / 2]
   \<and> array_min [- 1, 1 / 2] = Inr (- 1)"
  by (simp add: IrregularTimeSamples_init_def compute_def set_kwargs_def base_def
      add_irregularities_def normalize_def array_min_def arange_times_def Let_def
      upt_conv_Cons numeral_2_eq_2)

text \<open>
  Claim C1, amended. For \<open>n \<ge> 1\<close>, \<open>dt > 0\<close> and a non-negative \<open>sigma\<close>, recipe
  \<^verbatim>\<open>slight\<close> returns \<open>n\<close> timestamps. With \<open>m\<close> the minimum of the jittered grid: when
  \<open>offset \<le> m\<close> the jittered grid is returned unchanged; when \<open>0 \<le> m < offset\<close> the whole
  grid is shifted up by \<open>offset - m\<close>, so that its minimum equals \<open>offset\<close>.
\<close>

theorem compute_slight:
  assumes "1 \<le> n" and "0 < dt"
    and "sigma = (case kw_sigma kw of None \<Rightarrow> 0.05 | Some v \<Rightarrow> v)" and "0 \<le> sigma"
    and "epsilon = (case kw_epsilon kw of
                      None \<Rightarrow> map (rnd_epsilon rnd) [0 ..< nat n] | Some v \<Rightarrow> v)"
    and "nat n \<le> length epsilon"
    and "offset = (case kw_offset kw of None \<Rightarrow> 0 | Some v \<Rightarrow> v)"
    and "pre = map2 (+) (arange_times n dt) (take (nat n) epsilon)"
  shows "\<exists>g t'. IrregularTimeSamples_init n dt None = Inr g
           \<and> compute g ''slight'' clear kw rnd = Inr t'
           \<and> length t' = nat n
           \<and> (offset \<le> Min (set pre) \<longrightarrow> t' = pre)
           \<and> (0 \<le> Min (set pre) \<and> Min (set pre) < offset \<longrightarrow>
                t' = map (\<lambda>x. x + (offset - Min (set pre))) pre \<and> Min (set t') = offset)"
proof -
  let ?g = "\<lparr>its_n = n, its_dt = dt, its_t = arange_times n dt\<rparr>"
  let ?st = "\<lparr>set_offset = offset, set_sigma = sigma, set_epsilon = epsilon,
      set_break_point = (case kw_break_point kw of None \<Rightarrow> rnd_break_point rnd | Some v \<Rightarrow> v),
      set_empty_window = (case kw_empty_window kw of None \<Rightarrow> rnd_empty_window rnd | Some v \<Rightarrow> v),
      set_start_point = (case kw_start_point kw of None \<Rightarrow> rnd_start_point rnd | Some v \<Rightarrow> v),
      set_end_point = (case kw_end_point kw of None \<Rightarrow> n | Some v \<Rightarrow> v),
      set_gamma = kw_gamma kw\<rparr>"
  have len: "length (arange_times n dt) = nat n" by (simp add: arange_times_def)
  have init: "IrregularTimeSamples_init n dt None = Inr ?g"
    using assms(1,2) by (simp add: IrregularTimeSamples_init_def len)
  have "0 \<le> sigma * dt" using assms(2,4) by simp
  then have kws: "set_kwargs ?g kw rnd = Inr ?st"
    using assms(1,3,5,7) by (simp add: set_kwargs_def Let_def split: option.split)
  have clr: "(if clear then ?g\<lparr>its_t := arange_times (its_n ?g) (its_dt ?g)\<rparr> else ?g) = ?g"
    by simp
  have add: "add_irregularities ?g epsilon = Inr (?g\<lparr>its_t := pre\<rparr>)"
    using assms(6,8) by (simp add: add_irregularities_def Let_def len)
  have lpre: "length pre = nat n" using assms(6,8) by (simp add: len)
  then have ne: "its_t (?g\<lparr>its_t := pre\<rparr>) \<noteq> []" using assms(1) by auto
  from normalize_cases [OF ne, of offset]
  obtain self' where n1: "normalize (?g\<lparr>its_t := pre\<rparr>) offset = Inr self'"
    and n2: "length (its_t self') = length pre"
    and n3: "offset \<le> Min (set pre) \<longrightarrow> its_t self' = pre"
    and n4: "0 \<le> Min (set pre) \<and> Min (set pre) < offset \<longrightarrow>
                its_t self' = map (\<lambda>x. x + (offset - Min (set pre))) pre
                \<and> Min (set (its_t self')) = offset"
    by auto
  have "base ?g ?st = Inr self'" using add n1 by (simp add: base_def)
  then have c: "compute ?g ''slight'' clear kw rnd = Inr (its_t self')"
    unfolding compute_def kws by (simp add: Let_def)
  show ?thesis
  proof (intro exI conjI)
    show "IrregularTimeSamples_init n dt None = Inr ?g" by (rule init)
    show "compute ?g ''slight'' clear kw rnd = Inr (its_t self')" by (rule c)
    show "length (its_t self') = nat n" using n2 lpre by simp
    show "offset \<le> Min (set pre) \<longrightarrow> its_t self' = pre" by (rule n3)
    show "0 \<le> Min (set pre) \<and> Min (set pre) < offset \<longrightarrow>
            its_t self' = map (\<lambda>x. x + (offset - Min (set pre))) pre
            \<and> Min (set (its_t self')) = offset"
      by (rule n4)
  qed
qed

theorem compute_slight_witness:
  "(1 :: int) \<le> 2 \<and> (0 :: real) < 1 \<and> (0 :: real) \<le> 0.05 \<and> nat 2 \<le> length [1 / 2, 0 :: real]
   \<and> map2 (+) (arange_times 2 1) (take (nat 2) [1 / 2, 0]) = [1 / 2, 1]
   \<and> (0 :: real) \<le> Min (set [1 / 2, 1]) \<and> Min (set [1 / 2, 1]) < (1 :: real)
   \<and> (\<exists>g t'. IrregularTimeSamples_init 2 1 None = Inr g
        \<and> compute g ''slight'' True
             \<lparr>kw_offset = Some 1, kw_sigma = None, kw_epsilon = Some [1 / 2, 0],
              kw_break_point = None, kw_empty_window = None, kw_start_point = None,
              kw_end_point = None, kw_gamma = None\<rparr>
             \<lparr>rnd_epsilon = \<lambda>i. 0, rnd_break_point = 0, rnd_empty_window = 0,
              rnd_start_point = 0, mix_gamma = 1, mix_offset = 0, mix_empty_window = 0,
              mix_epsilon = \<lambda>i. 0\<rparr> = Inr t'
        \<and> length t' = 2 \<and> t' = [1, 3 / 2] \<and> Min (set t') = 1)
   \<and> (\<exists>g t'. IrregularTimeSamples_init 2 1 None = Inr g
        \<and> compute g ''slight'' True
             \<lparr>kw_offset = None, kw_sigma = None, kw_epsilon = Some [1 / 2, 0],
              kw_break_point = None, kw_empty_window = None, kw_start_point = None,
              kw_end_point = None, kw_gamma = None\<rparr>
             \<lparr>rnd_epsilon = \<lambda>i. 0, rnd_break_point = 0, rnd_empty_window = 0,
              rnd_start_point = 0, mix_gamma = 1, mix_offset = 0, mix_empty_window = 0,
              mix_epsilon = \<lambda>i. 0\<rparr> = Inr t'
        \<and> length t' = 2 \<and> t' = [1 / 2, 1])"
proof -
  let ?rnd = "\<lparr>rnd_epsilon = \<lambda>i. 0 :: real, rnd_break_point = 0, rnd_empty_window = 0,
              rnd_start_point = 0, mix_gamma = 1, mix_offset = 0, mix_empty_window = 0,
              mix_epsilon = \<lambda>i. 0 :: real\<rparr>"
  let ?kw = "\<lambda>off. \<lparr>kw_offset = off, kw_sigma = None, kw_epsilon = Some [1 / 2, 0 :: real],
              kw_break_point = None, kw_empty_window = None, kw_start_point = None,
              kw_end_point = None, kw_gamma = None\<rparr>"
  have pre: "[1 / 2, 1 :: real] = map2 (+) (arange_times 2 1) (take (nat 2) [1 / 2, 0])"
    by (simp add: arange_times_def upt_conv_Cons numeral_2_eq_2)
  have h1: "(1 :: int) \<le> 2" and h2: "(0 :: real) < 1" and h4: "(0 :: real) \<le> 0.05"
    and h6: "nat 2 \<le> length [1 / 2, 0 :: real]"
    by simp_all
  have s1: "(0.05 :: real) = (case kw_sigma (?kw (Some 1)) of None \<Rightarrow> 0.05 | Some v \<Rightarrow> v)"
    and e1: "[1 / 2, 0] = (case kw_epsilon (?kw (Some 1)) of
               None \<Rightarrow> map (rnd_epsilon ?rnd) [0 ..< nat 2] | Some v \<Rightarrow> v)"
    and o1: "(1 :: real) = (case kw_offset (?kw (Some 1)) of None \<Rightarrow> 0 | Some v \<Rightarrow> v)"
    by simp_all
  have s0: "(0.05 :: real) = (case kw_sigma (?kw None) of None \<Rightarrow> 0.05 | Some v \<Rightarrow> v)"
    and e0: "[1 / 2, 0] = (case kw_epsilon (?kw None) of
               None \<Rightarrow> map (rnd_epsilon ?rnd) [0 ..< nat 2] | Some v \<Rightarrow> v)"
    and o0: "(0 :: real) = (case kw_offset (?kw None) of None \<Rightarrow> 0 | Some v \<Rightarrow> v)"
    by simp_all
  have a: "\<exists>g t'. IrregularTimeSamples_init 2 1 None = Inr g
        \<and> compute g ''slight'' True (?kw (Some 1)) ?rnd = Inr t'
        \<and> length t' = 2 \<and> t' = [1, 3 / 2] \<and> Min (set t') = 1"
    using compute_slight [where clear = True, OF h1 h2 s1 h4 e1 h6 o1 pre]
    by simp
  have b: "\<exists>g t'. IrregularTimeSamples_init 2 1 None = Inr g
        \<and> compute g ''slight'' True (?kw None) ?rnd = Inr t'
        \<and> length t' = 2 \<and> t' = [1 / 2, 1]"
    using compute_slight [where clear = True, OF h1 h2 s0 h4 e0 h6 o0 pre]
    by simp
  show ?thesis using a b pre [symmetric] by simp
qed

subsection \<open>The zero frequency in the periodogram\<close>

text \<open>
  A grid whose first zero is at index \<open>z\<close>, and the two parts of a grid around its only
  zero.
\<close>

lemma zero_idx_unique:
  assumes "z < length (fs_data g)" and "fs_data g ! z = 0"
    and "\<forall>i < z. fs_data g ! i \<noteq> 0"
  shows "has_zero g" and "zero_idx g = Some z"
proof -
  show hz: "has_zero g" using assms(1,2) unfolding has_zero_def by (metis nth_mem)
  have "takeWhile (\<lambda>f. f \<noteq> 0) (fs_data g) = take z (fs_data g)"
    using assms by (intro takeWhile_eq_take_P_nth) auto
  then show "zero_idx g = Some z" using hz assms(1) by (simp add: zero_idx_def)
qed

lemma no_zero_before:
  assumes "\<forall>i < z. (xs :: real list) ! i \<noteq> 0" and "z \<le> length xs"
  shows "0 \<notin> set (map abs (rev (take z xs)))"
proof
  assume "0 \<in> set (map abs (rev (take z xs)))"
  then have "0 \<in> set (take z xs)" by auto
  then obtain i where "i < length (take z xs)" "take z xs ! i = 0"
    by (auto simp add: in_set_conv_nth)
  then show False using assms by auto
qed

lemma no_zero_after:
  assumes "\<forall>i < length xs. z < i \<longrightarrow> (xs :: real list) ! i \<noteq> 0"
  shows "0 \<notin> set (drop (Suc z) xs)"
proof
  assume "0 \<in> set (drop (Suc z) xs)"
  then obtain i where "i < length (drop (Suc z) xs)" "drop (Suc z) xs ! i = 0"
    by (auto simp add: in_set_conv_nth)
  then show False using assms by (auto simp add: less_diff_conv)
qed

text \<open>
  Claim C2, as stated: on every grid with an exact zero the kernel is never invoked at
  frequency 0, and the bin at the zero index is the minimum of its neighbouring powers.
  On the grid \<open>[0, 0, 1]\<close> the first zero is at index 0 and the kernel is called on
  \<open>[0, 1]\<close>. On the grid \<open>[- 3, - 2, 0, 1]\<close>, with a kernel that returns the power
  \<open>10 - f\<close> at frequency \<open>f\<close>, the powers are \<open>[7, 8, 7, 9]\<close>: the bin at the zero index
  holds 7, the power of the first bin, and its two neighbours hold 8 and 9.
\<close>

theorem lomb_scargle_psd_counterexample:
  "fst (lomb_scargle_psd (\<lambda>fs i. 10 - fs ! i) \<lparr>fs_data = [0, 0, 1], fs_df = 1, fs_n_per_peak = 1\<rparr>)
     = [[0, 1]]
   \<and> snd (lomb_scargle_psd (\<lambda>fs i. 10 - fs ! i)
            \<lparr>fs_data = [- 3, - 2, 0, 1], fs_df = 1, fs_n_per_peak = 1\<rparr>)
     = Inr [7, 8, 7, 9]"
  by code_simp

text \<open>
  Claim C2, amended. On a grid whose only exact zero is at index \<open>z\<close> the kernel is
  never invoked at frequency 0. When \<open>z > 0\<close> the kernel is called on the frequencies
  after the zero and on the reversed magnitudes of those before it, the results fill the
  two spans, and the bin at \<open>z\<close> is the minimum of all the powers of the span before it
  (bins \<open>0\<close> to \<open>z - 1\<close>). When \<open>z = 0\<close> and the grid has more than one entry, bin 0 is
  the minimum of all the other powers.
\<close>

theorem lomb_scargle_psd_single_zero:
  assumes "z < length (fs_data g)" and "fs_data g ! z = 0"
    and "\<forall>i < length (fs_data g). i \<noteq> z \<longrightarrow> fs_data g ! i \<noteq> 0"
  shows "(\<forall>c \<in> set (fst (lomb_scargle_psd lomb g)). 0 \<notin> set c)
    \<and> (0 < z \<longrightarrow>
         lomb_scargle_psd lomb g =
           ([drop (z + 1) (fs_data g), map abs (rev (take z (fs_data g)))],
            Inr (rev (kernel_power lomb (map abs (rev (take z (fs_data g)))))
                 @ [Min (set (kernel_power lomb (map abs (rev (take z (fs_data g))))))]
                 @ kernel_power lomb (drop (z + 1) (fs_data g)))))
    \<and> (z = 0 \<and> 1 < length (fs_data g) \<longrightarrow>
         lomb_scargle_psd lomb g =
           ([drop 1 (fs_data g)],
            Inr (Min (set (kernel_power lomb (drop 1 (fs_data g))))
                 # kernel_power lomb (drop 1 (fs_data g)))))"
proof -
  have before: "\<forall>i < z. fs_data g ! i \<noteq> 0" using assms(1,3) by auto
  have after: "\<forall>i < length (fs_data g). z < i \<longrightarrow> fs_data g ! i \<noteq> 0" using assms(3) by auto
  note zi = zero_idx_unique [OF assms(1,2) before]
  have nb: "0 \<notin> set (map abs (rev (take z (fs_data g))))"
    using no_zero_before [OF before] assms(1) by simp
  have na: "0 \<notin> set (drop (Suc z) (fs_data g))" by (rule no_zero_after [OF after])
  have pos: "lomb_scargle_psd lomb g =
           ([drop (z + 1) (fs_data g), map abs (rev (take z (fs_data g)))],
            Inr (rev (kernel_power lomb (map abs (rev (take z (fs_data g)))))
                 @ [Min (set (kernel_power lomb (map abs (rev (take z (fs_data g))))))]
                 @ kernel_power lomb (drop (z + 1) (fs_data g))))" if "0 < z"
    using that zi by (simp add: lomb_scargle_psd_def split_by_zero_def Let_def)
  have zero: "lomb_scargle_psd lomb g =
           ([drop 1 (fs_data g)],
            Inr (Min (set (kernel_power lomb (drop 1 (fs_data g))))
                 # kernel_power lomb (drop 1 (fs_data g))))"
    if "z = 0" "1 < length (fs_data g)"
    using that zi by (simp add: lomb_scargle_psd_def Let_def kernel_power_def)
  have calls: "\<forall>c \<in> set (fst (lomb_scargle_psd lomb g)). 0 \<notin> set c"
  proof (cases "z = 0")
    case True
    then show ?thesis using zi na by (simp add: lomb_scargle_psd_def Let_def)
  next
    case False
    then show ?thesis using pos nb na by simp
  qed
  show ?thesis using calls pos zero by blast
qed

theorem lomb_scargle_psd_single_zero_witness:
  "(2 :: nat) < length (fs_data \<lparr>fs_data = [- 3, - 2, 0, 1], fs_df = 1, fs_n_per_peak = 1\<rparr>)
   \<and> fs_data \<lparr>fs_data = [- 3, - 2, 0, 1], fs_df = 1, fs_n_per_peak = 1\<rparr> ! 2 = 0
   \<and> 0 \<notin> set [- 3, - 2, 1 :: real]
   \<and> lomb_scargle_psd (\<lambda>fs i. 10 - fs ! i)
        \<lparr>fs_data = [- 3, - 2, 0, 1], fs_df = 1, fs_n_per_peak = 1\<rparr>
      = ([[1], [2, 3]], Inr [7, 8, 7, 9])
   \<and> lomb_scargle_psd (\<lambda>fs i. 10 - fs ! i)
        \<lparr>fs_data = [0, 1, 2], fs_df = 1, fs_n_per_peak = 1\<rparr>
      = ([[1, 2]], Inr [8, 9, 8])"
proof -
  let ?g = "\<lparr>fs_data = [- 3, - 2, 0, 1 :: real], fs_df = 1, fs_n_per_peak = 1\<rparr>"
  let ?h = "\<lparr>fs_data = [0, 1, 2 :: real], fs_df = 1, fs_n_per_peak = 1\<rparr>"
  let ?k = "\<lambda>(fs :: real list) i. 10 - fs ! i"
  have g1: "2 < length (fs_data ?g)" and g2: "fs_data ?g ! 2 = 0" by simp_all
  have g3: "\<forall>i < length (fs_data ?g). i \<noteq> 2 \<longrightarrow> fs_data ?g ! i \<noteq> 0"
    by (auto simp add: nth_Cons' less_Suc_eq numeral_eq_Suc)
  have h1: "0 < length (fs_data ?h)" and h2: "fs_data ?h ! 0 = 0" by simp_all
  have h3: "\<forall>i < length (fs_data ?h). i \<noteq> 0 \<longrightarrow> fs_data ?h ! i \<noteq> 0"
    by (auto simp add: nth_Cons' less_Suc_eq numeral_eq_Suc)
  have kg: "kernel_power ?k [2, 3] = [8, 7]" "kernel_power ?k [1] = [9]"
    and kh: "kernel_power ?k [1, 2] = [9, 8]"
    by (simp_all add: kernel_power_def upt_conv_Cons numeral_2_eq_2)
  have a: "lomb_scargle_psd ?k ?g = ([[1], [2, 3]], Inr [7, 8, 7, 9])"
    using lomb_scargle_psd_single_zero [OF g1 g2 g3, of ?k] by (simp add: kg numeral_2_eq_2)
  have b: "lomb_scargle_psd ?k ?h = ([[1, 2]], Inr [8, 9, 8])"
    using lomb_scargle_psd_single_zero [OF h1 h2 h3, of ?k] by (simp add: kh)
  show ?thesis using a b by simp
qed

subsection \<open>Segments of the averaged periodogram\<close>






text \<open>
  Claim C7. The claim has the final segment cover the last \<open>d\<close> samples, indices
  \<open>L - d\<close> to \<open>L - 1\<close>. For the series with samples \<open>[10, 20, 30]\<close> at the times
  \<open>[0, 1, 2]\<close> and \<open>d = 1\<close> the final segment is the sample 20 at time 1, index 1, and
  not the last sample 30.
\<close>

theorem final_segment_misses_last_sample:
  "final_segment [0, 1, 2] \<lparr>ts_data = [10, 20, 30 :: real], ts_times = [0, 1, 2],
       ts_kind = real_kind\<rparr> 1
     = Inr \<lparr>ts_data = [20], ts_times = [1], ts_kind = real_kind\<rparr>
   \<and> slice (3 - 1) 3 [10, 20, 30 :: real] = [30]"
  by code_simp

subsection \<open>The averaged periodogram\<close>











end
